theory Spec2Isabelle
  imports Complex_Main "HOL-Library.Product_Lexorder" "HOL-Library.Multiset"
begin

section \<open>Conventions of the embedding\<close>

text \<open>
  Python's unbounded \<open>int\<close> is \<^typ>\<open>int\<close>. Python's \<open>float\<close> is modelled by the exact
  field \<^typ>\<open>real\<close>: rounding, infinities and NaN are outside the model, so every statement
  about a float below is a statement about the exact arithmetic the expression denotes.
  An exception is a value \<open>Inl e\<close> of a sum type; a normal return is \<open>Inr v\<close>.
\<close>

datatype py_error =
    ValueError
  | OverflowError
  | RuntimeError
  | HTTPStatusError int
  | TransportError
  | JSONDecodeError
  | AttributeError
  | NonFinite

subsection \<open>Slices, maxima and sums of lists\<close>

text \<open>
  \<open>xs[a:]\<close> and \<open>xs[a:b]\<close> for integer bounds: a negative bound counts from the end and
  is clipped at 0, a bound beyond the end is clipped at the length.
\<close>

definition py_bound :: "nat \<Rightarrow> int \<Rightarrow> nat" where
  "py_bound n i = (if i < 0 then nat (max 0 (int n + i)) else min n (nat i))"

definition py_slice_from :: "'a list \<Rightarrow> int \<Rightarrow> 'a list" where
  "py_slice_from xs a = drop (py_bound (length xs) a) xs"

definition py_slice :: "'a list \<Rightarrow> int \<Rightarrow> int \<Rightarrow> 'a list" where
  "py_slice xs a b =
     (let lo = py_bound (length xs) a; hi = py_bound (length xs) b
      in take (hi - lo) (drop lo xs))"

text \<open>\<open>max(xs)\<close> raises \<open>ValueError\<close> on an empty list and keeps the first maximal element.\<close>

fun py_max :: "real list \<Rightarrow> py_error + real" where
  "py_max [] = Inl ValueError"
| "py_max (x # xs) = Inr (fold (\<lambda>y m. if m < y then y else m) xs x)"

subsection \<open>Strings and the number parsers of Python\<close>

text \<open>
  A Python \<open>str\<close> is a \<^typ>\<open>string\<close> whose characters are the code points below 256.
  \<open>is_space\<close> is \<open>str.isspace\<close> on these code points; \<open>strip\<close>, \<open>lstrip_chars\<close> and
  \<open>replace_char\<close> are \<open>s.strip()\<close>, \<open>s.lstrip(chars)\<close> and \<open>s.replace(c, "")\<close>.
\<close>

definition is_space :: "char \<Rightarrow> bool" where
  "is_space c = (let n = (of_char c :: nat)
                 in (9 \<le> n \<and> n \<le> 13) \<or> (28 \<le> n \<and> n \<le> 32) \<or> n = 133 \<or> n = 160)"

definition is_digit :: "char \<Rightarrow> bool" where
  "is_digit c = (48 \<le> (of_char c :: nat) \<and> (of_char c :: nat) \<le> 57)"

definition digit_val :: "char \<Rightarrow> nat" where
  "digit_val c = of_char c - 48"

definition strip :: "string \<Rightarrow> string" where
  "strip s = rev (dropWhile is_space (rev (dropWhile is_space s)))"

definition lstrip_chars :: "string \<Rightarrow> string \<Rightarrow> string" where
  "lstrip_chars chars s = dropWhile (\<lambda>c. c \<in> set chars) s"

definition replace_char :: "char \<Rightarrow> string \<Rightarrow> string" where
  "replace_char c s = filter (\<lambda>d. d \<noteq> c) s"

definition lower :: "char \<Rightarrow> char" where
  "lower c = (let n = (of_char c :: nat) in if 65 \<le> n \<and> n \<le> 90 then char_of (n + 32) else c)"

text \<open>
  The grammar of \<open>float(str)\<close> and \<open>int(str)\<close>:
  \<^verbatim>\<open>digitpart ::= digit (["_"] digit)*\<close>,
  \<^verbatim>\<open>number ::= [digitpart] "." digitpart | digitpart ["."]\<close>,
  \<^verbatim>\<open>exponent ::= ("e" | "E") [sign] digitpart\<close>,
  \<^verbatim>\<open>floatvalue ::= [sign] (number [exponent] | "inf" | "infinity" | "nan")\<close>,
  surrounded by optional whitespace. \<open>digitpart_rest\<close> reads what follows the first digit
  of a digitpart and returns the digits read and the unread rest.
\<close>

fun digitpart_rest :: "string \<Rightarrow> nat list \<times> string" where
  "digitpart_rest [] = ([], [])"
| "digitpart_rest [c] = (if is_digit c then ([digit_val c], []) else ([], [c]))"
| "digitpart_rest (c # d # cs) =
     (if is_digit c then (case digitpart_rest (d # cs) of (ds, r) \<Rightarrow> (digit_val c # ds, r))
      else if c = CHR ''_'' \<and> is_digit d
        then (case digitpart_rest cs of (ds, r) \<Rightarrow> (digit_val d # ds, r))
      else ([], c # d # cs))"

definition digitpart :: "string \<Rightarrow> (nat list \<times> string) option" where
  "digitpart s =
     (case s of
        [] \<Rightarrow> None
      | c # cs \<Rightarrow> if is_digit c
                  then (case digitpart_rest cs of (ds, r) \<Rightarrow> Some (digit_val c # ds, r))
                  else None)"

definition nat_of_digits :: "nat list \<Rightarrow> nat" where
  "nat_of_digits ds = foldl (\<lambda>a d. 10 * a + d) 0 ds"

text \<open>\<open>split_sign s\<close>: whether \<open>s\<close> starts with \<open>-\<close>, and \<open>s\<close> without its optional sign.\<close>

definition split_sign :: "string \<Rightarrow> bool \<times> string" where
  "split_sign s =
     (case s of
        [] \<Rightarrow> (False, [])
      | c # cs \<Rightarrow> if c = CHR ''-'' then (True, cs)
                  else if c = CHR ''+'' then (False, cs) else (False, c # cs))"

text \<open>\<open>number s\<close>: the digits before the point, the digits after it, and the unread rest.\<close>

definition number :: "string \<Rightarrow> (nat list \<times> nat list \<times> string) option" where
  "number s =
     (case digitpart s of
        Some (ip, r) \<Rightarrow>
          (case r of
             [] \<Rightarrow> Some (ip, [], [])
           | c # cs \<Rightarrow>
               if c = CHR ''.''
               then (case digitpart cs of
                       Some (fp, r') \<Rightarrow> Some (ip, fp, r')
                     | None \<Rightarrow> Some (ip, [], cs))
               else Some (ip, [], c # cs))
      | None \<Rightarrow>
          (case s of
             [] \<Rightarrow> None
           | c # cs \<Rightarrow>
               if c = CHR ''.''
               then (case digitpart cs of
                       Some (fp, r') \<Rightarrow> Some ([], fp, r')
                     | None \<Rightarrow> None)
               else None))"

text \<open>\<open>exponent r\<close>: the exponent written in \<open>r\<close>, 0 when \<open>r\<close> is empty; \<open>r\<close> must be read whole.\<close>

definition exponent :: "string \<Rightarrow> int option" where
  "exponent r =
     (case r of
        [] \<Rightarrow> Some 0
      | c # cs \<Rightarrow>
          if c = CHR ''e'' \<or> c = CHR ''E''
          then (case split_sign cs of
                  (neg, ds) \<Rightarrow>
                    (case digitpart ds of
                       Some (es, []) \<Rightarrow>
                         Some (if neg then - int (nat_of_digits es) else int (nat_of_digits es))
                     | Some (es, x # xs) \<Rightarrow> None
                     | None \<Rightarrow> None))
          else None)"

definition float_value :: "nat list \<Rightarrow> nat list \<Rightarrow> int \<Rightarrow> real" where
  "float_value ip fp e =
     (real (nat_of_digits ip) + real (nat_of_digits fp) / 10 ^ length fp)
       * (if e \<ge> 0 then 10 ^ nat e else 1 / 10 ^ nat (- e))"

text \<open>
  \<open>float(s)\<close> for a string. \<open>inf\<close>, \<open>infinity\<close> and \<open>nan\<close> (any case, optionally signed) are
  accepted by Python and denote no real number: the model marks them \<open>Inl NonFinite\<close>,
  which is the boundary of the model and not an exception of the source.
\<close>

definition py_float :: "string \<Rightarrow> py_error + real" where
  "py_float s0 =
     (case split_sign (strip s0) of
        (neg, body) \<Rightarrow>
          if map lower body \<in> {''inf'', ''infinity'', ''nan''} then Inl NonFinite
          else (case number body of
                  None \<Rightarrow> Inl ValueError
                | Some (ip, fp, r) \<Rightarrow>
                    (case exponent r of
                       None \<Rightarrow> Inl ValueError
                     | Some e \<Rightarrow> Inr ((if neg then - 1 else 1) * float_value ip fp e))))"

text \<open>\<open>int(s)\<close> for a string, base 10.\<close>

definition py_int :: "string \<Rightarrow> py_error + int" where
  "py_int s0 =
     (case split_sign (strip s0) of
        (neg, body) \<Rightarrow>
          (case digitpart body of
             Some (ds, []) \<Rightarrow> Inr (if neg then - int (nat_of_digits ds) else int (nat_of_digits ds))
           | Some (ds, x # xs) \<Rightarrow> Inl ValueError
           | None \<Rightarrow> Inl ValueError))"

section \<open>client.py: parse\_price\<close>

text \<open>The values \<open>parse_price\<close> is typed for: \<open>str | int | float | None\<close>.\<close>

datatype py_value = PNone | PInt int | PFloat real | PStr string

definition parse_price :: "py_value \<Rightarrow> py_error + real" where
  "parse_price v =
     (case v of
        PNone \<Rightarrow> Inr 0
      | PInt i \<Rightarrow> Inr \<bar>real_of_int i\<bar>
      | PFloat x \<Rightarrow> Inr \<bar>x\<bar>
      | PStr s \<Rightarrow>
          (let clean = lstrip_chars ''+-'' (replace_char (CHR '','') (strip s))
           in if clean \<noteq> [] then py_float clean else Inr 0))"



section \<open>swing\_signal.py\<close>

record SignalRow =
  code :: string
  name :: string
  current_price :: real
  retrace_pct :: real
  short_ma :: real
  long_ma :: real
  volume_ratio :: real
  pullback_ok :: bool
  rebound_ok :: bool
  signal :: bool
  signal_score :: real

text \<open>\<open>avg\<close>: 0.0 for an empty list, else \<open>float(sum(values) / len(values))\<close>.\<close>

definition avg :: "real list \<Rightarrow> real" where
  "avg values = (if values = [] then 0 else sum_list values / real (length values))"

text \<open>
  \<open>evaluate_signal\<close>. The result is \<open>Inr None\<close> when the series is rejected, \<open>Inr (Some row)\<close>
  when it is evaluated, and \<open>Inl ValueError\<close> when \<open>max\<close> meets an empty slice (a negative
  \<open>recent_high_bars\<close> whose magnitude reaches the length of the series). Volumes are
  Python ints; \<open>avg\<close> divides them as floats.
\<close>

definition evaluate_signal ::
  "string \<Rightarrow> string \<Rightarrow> real list \<Rightarrow> int list \<Rightarrow> int \<Rightarrow> real \<Rightarrow> real \<Rightarrow> real
     \<Rightarrow> py_error + SignalRow option" where
  "evaluate_signal cd nm closes volumes recent_high_bars pullback_min pullback_max min_vol_ratio =
    (if length closes < 30 then Inr None
     else
       let current = last closes;
           high_slice = (if int (length closes) \<ge> recent_high_bars
                         then py_slice_from closes (- recent_high_bars) else closes)
       in (case py_max high_slice of
            Inl e \<Rightarrow> Inl e
          | Inr recent_high \<Rightarrow>
             (let retrace = (if recent_high > 0
                             then (recent_high - current) / recent_high * 100 else 0);
                  short_ma' = avg (py_slice_from closes (-5));
                  long_ma' = avg (py_slice_from closes (-20))
              in (case (if length closes \<ge> 6
                        then py_max (py_slice closes (-6) (-1)) else Inr current) of
                   Inl e \<Rightarrow> Inl e
                 | Inr prev5_high \<Rightarrow>
                    (let recent_vol = avg (map real_of_int (py_slice_from volumes (-5)));
                         prev_vol = avg (map real_of_int (py_slice volumes (-25) (-5)));
                         vol_ratio = (if prev_vol > 0 then recent_vol / prev_vol else 0);
                         pullback_ok' = (pullback_min \<le> retrace \<and> retrace \<le> pullback_max
                                         \<and> (long_ma' > 0 \<and> current \<ge> long_ma' * 0.98));
                         rebound_ok' = (current \<ge> prev5_high \<and> short_ma' \<ge> long_ma'
                                        \<and> vol_ratio \<ge> min_vol_ratio);
                         signal' = (pullback_ok' \<and> rebound_ok');
                         score = 0 + (if pullback_ok' then 40 else 0)
                                   + (if rebound_ok' then 40 else 0)
                                   + min 20 (max 0 ((vol_ratio - 1) * 20))
                     in Inr (Some \<lparr> code = cd, name = nm, current_price = current,
                                    retrace_pct = retrace, short_ma = short_ma',
                                    long_ma = long_ma', volume_ratio = vol_ratio,
                                    pullback_ok = pullback_ok', rebound_ok = rebound_ok',
                                    signal = signal', signal_score = score \<rparr>))))))"

text \<open>
  The batch order of \<open>main\<close>:
  \<^verbatim>\<open>rows.sort(key=lambda x: (x.signal, x.signal_score, x.volume_ratio), reverse=True)\<close>.
  Tuples compare lexicographically and \<open>False < True\<close>. \<open>list.sort\<close> is stable; with
  \<open>reverse=True\<close> it reverses the list, sorts it ascending and reverses the result, so
  rows with equal keys keep their order.
\<close>

definition sort_key_of :: "SignalRow \<Rightarrow> bool \<times> real \<times> real" where
  "sort_key_of x = (signal x, signal_score x, volume_ratio x)"

definition sort_rows :: "SignalRow list \<Rightarrow> SignalRow list" where
  "sort_rows rows = rev (sort_key sort_key_of (rev rows))"

section \<open>auth.py\<close>

subsection \<open>Naive datetimes and \<open>strptime\<close> for the format \<open>%Y%m%d%H%M%S\<close>\<close>

text \<open>
  A naive \<open>datetime\<close> is the number of microseconds since 0001-01-01T00:00:00 of the
  proleptic Gregorian calendar; the representable values are \<open>0 .. max_datetime\<close>
  (9999-12-31T23:59:59.999999).
\<close>

type_synonym datetime = int

definition is_leap :: "int \<Rightarrow> bool" where
  "is_leap y = (y mod 4 = 0 \<and> (y mod 100 \<noteq> 0 \<or> y mod 400 = 0))"

definition days_in_month :: "int \<Rightarrow> int \<Rightarrow> int" where
  "days_in_month y m =
     (if m = 2 then (if is_leap y then 29 else 28)
      else if m = 4 \<or> m = 6 \<or> m = 9 \<or> m = 11 then 30 else 31)"

definition days_before_year :: "int \<Rightarrow> int" where
  "days_before_year y = (y - 1) * 365 + (y - 1) div 4 - (y - 1) div 100 + (y - 1) div 400"

definition days_before_month :: "int \<Rightarrow> int \<Rightarrow> int" where
  "days_before_month y m = sum_list (map (days_in_month y) [1 .. m - 1])"

definition ymd2ord :: "int \<Rightarrow> int \<Rightarrow> int \<Rightarrow> int" where
  "ymd2ord y m d = days_before_year y + days_before_month y m + d"

definition max_datetime :: datetime where
  "max_datetime = ymd2ord 9999 12 31 * 86400000000 - 1"

text \<open>The constructor \<open>datetime(y, m, d, H, M, S)\<close>: \<open>ValueError\<close> for a field out of range.\<close>

definition mk_datetime :: "int \<Rightarrow> int \<Rightarrow> int \<Rightarrow> int \<Rightarrow> int \<Rightarrow> int \<Rightarrow> py_error + datetime" where
  "mk_datetime y m d H M S =
     (if 1 \<le> y \<and> y \<le> 9999 \<and> 1 \<le> m \<and> m \<le> 12 \<and> 1 \<le> d \<and> d \<le> days_in_month y m
         \<and> 0 \<le> H \<and> H \<le> 23 \<and> 0 \<le> M \<and> M \<le> 59 \<and> 0 \<le> S \<and> S \<le> 59
      then Inr (((((ymd2ord y m d - 1) * 24 + H) * 60 + M) * 60 + S) * 1000000)
      else Inl ValueError)"

text \<open>\<open>dt - timedelta\<close>: \<open>OverflowError\<close> when the result leaves the representable range.\<close>

definition dt_minus :: "datetime \<Rightarrow> int \<Rightarrow> py_error + datetime" where
  "dt_minus t delta =
     (if 0 \<le> t - delta \<and> t - delta \<le> max_datetime then Inr (t - delta) else Inl OverflowError)"

definition timedelta_minutes :: "int \<Rightarrow> int" where
  "timedelta_minutes n = n * 60 * 1000000"

definition timedelta_seconds :: "int \<Rightarrow> int" where
  "timedelta_seconds n = n * 1000000"

text \<open>
  \<open>strptime\<close> turns each directive into a regular expression, matches their
  concatenation at the start of the string with backtracking, and rejects a match that
  leaves characters unread. The directives used here are
  \<^verbatim>\<open>%Y = \d\d\d\d\<close>, \<^verbatim>\<open>%m = 1[0-2]|0[1-9]|[1-9]\<close>,
  \<^verbatim>\<open>%d = 3[0-1]|[1-2]\d|0[1-9]|[1-9]| [1-9]\<close>, \<^verbatim>\<open>%H = 2[0-3]|[0-1]\d|\d\<close>,
  \<^verbatim>\<open>%M = [0-5]\d|\d\<close>, \<^verbatim>\<open>%S = 6[0-1]|[0-5]\d|\d\<close>.
  Each function below returns the matches of one directive in the order the regular
  expression engine tries them, as pairs of the number read and the unread rest.
\<close>

definition two_digits :: "(nat \<Rightarrow> nat \<Rightarrow> bool) \<Rightarrow> string \<Rightarrow> (int \<times> string) list" where
  "two_digits P s =
     (case s of
        a # b # r \<Rightarrow>
          if is_digit a \<and> is_digit b \<and> P (digit_val a) (digit_val b)
          then [(int (10 * digit_val a + digit_val b), r)] else []
      | _ \<Rightarrow> [])"

definition one_digit :: "(nat \<Rightarrow> bool) \<Rightarrow> string \<Rightarrow> (int \<times> string) list" where
  "one_digit P s =
     (case s of
        a # r \<Rightarrow> if is_digit a \<and> P (digit_val a) then [(int (digit_val a), r)] else []
      | _ \<Rightarrow> [])"

definition re_Y :: "string \<Rightarrow> (int \<times> string) list" where
  "re_Y s =
     (case s of
        a # b # c # d # r \<Rightarrow>
          if is_digit a \<and> is_digit b \<and> is_digit c \<and> is_digit d
          then [(int (nat_of_digits (map digit_val [a, b, c, d])), r)] else []
      | _ \<Rightarrow> [])"

definition re_m :: "string \<Rightarrow> (int \<times> string) list" where
  "re_m s = two_digits (\<lambda>a b. a = 1 \<and> b \<le> 2) s @ two_digits (\<lambda>a b. a = 0 \<and> 1 \<le> b) s
            @ one_digit (\<lambda>a. 1 \<le> a) s"

definition re_d :: "string \<Rightarrow> (int \<times> string) list" where
  "re_d s = two_digits (\<lambda>a b. a = 3 \<and> b \<le> 1) s @ two_digits (\<lambda>a b. 1 \<le> a \<and> a \<le> 2) s
            @ two_digits (\<lambda>a b. a = 0 \<and> 1 \<le> b) s @ one_digit (\<lambda>a. 1 \<le> a) s
            @ (case s of
                 sp # r \<Rightarrow> if sp = CHR '' '' then one_digit (\<lambda>a. 1 \<le> a) r else []
               | _ \<Rightarrow> [])"

definition re_H :: "string \<Rightarrow> (int \<times> string) list" where
  "re_H s = two_digits (\<lambda>a b. a = 2 \<and> b \<le> 3) s @ two_digits (\<lambda>a b. a \<le> 1) s
            @ one_digit (\<lambda>a. True) s"

definition re_M :: "string \<Rightarrow> (int \<times> string) list" where
  "re_M s = two_digits (\<lambda>a b. a \<le> 5) s @ one_digit (\<lambda>a. True) s"

definition re_S :: "string \<Rightarrow> (int \<times> string) list" where
  "re_S s = two_digits (\<lambda>a b. a = 6 \<and> b \<le> 1) s @ two_digits (\<lambda>a b. a \<le> 5) s
            @ one_digit (\<lambda>a. True) s"

definition re_match :: "string \<Rightarrow> ((int \<times> int \<times> int \<times> int \<times> int \<times> int) \<times> string) list" where
  "re_match s =
     [((y, m, d, H, M, S), r6).
        (y, r1) \<leftarrow> re_Y s, (m, r2) \<leftarrow> re_m r1, (d, r3) \<leftarrow> re_d r2,
        (H, r4) \<leftarrow> re_H r3, (M, r5) \<leftarrow> re_M r4, (S, r6) \<leftarrow> re_S r5]"

definition strptime :: "string \<Rightarrow> py_error + datetime" where
  "strptime s =
     (case re_match s of
        [] \<Rightarrow> Inl ValueError
      | ((y, m, d, H, M, S), r) # _ \<Rightarrow>
          if r \<noteq> [] then Inl ValueError else mk_datetime y m d H M S)"

subsection \<open>Token and TokenManager\<close>

record Token =
  access_token :: string
  token_type :: string
  expires_dt :: string

text \<open>
  \<open>Token.is_expired\<close>, with the reading of \<open>datetime.now()\<close> as a parameter. Only
  \<open>ValueError\<close> is caught; any other exception leaves the property.
\<close>

definition is_expired :: "Token \<Rightarrow> datetime \<Rightarrow> py_error + bool" where
  "is_expired tok now =
     (if expires_dt tok = [] then Inr False
      else (case strptime (expires_dt tok) of
              Inl e \<Rightarrow> if e = ValueError then Inr False else Inl e
            | Inr expires_time \<Rightarrow>
                (case dt_minus expires_time (timedelta_minutes 1) of
                   Inl e \<Rightarrow> if e = ValueError then Inr False else Inl e
                 | Inr margin \<Rightarrow> Inr (now \<ge> margin))))"

text \<open>
  What the network gives to one \<open>client.post\<close>: no response at all (the transport
  raises), or a response with its status, its \<open>Retry-After\<close> header if any, and its body
  decoded by \<open>response.json()\<close> (\<open>None\<close> when the body does not decode).
\<close>

record 'j response =
  status_code :: int
  retry_after :: "string option"
  json :: "'j option"

datatype 'j reply = NoReply | Reply "'j response"

text \<open>\<open>raise_for_status\<close> raises \<open>HTTPStatusError\<close> unless the status is 2xx.\<close>

definition is_success :: "int \<Rightarrow> bool" where
  "is_success st = (200 \<le> st \<and> st \<le> 299)"

text \<open>
  The body of a token response is a JSON object with string values, a map
  \<open>string \<rightharpoonup> string\<close>. \<open>py_or a b\<close> is \<open>a or b\<close> on the results of \<open>dict.get\<close>.
\<close>

definition truthy :: "string option \<Rightarrow> bool" where
  "truthy v = (case v of None \<Rightarrow> False | Some s \<Rightarrow> s \<noteq> [])"

definition py_or :: "string option \<Rightarrow> string option \<Rightarrow> string option" where
  "py_or a b = (if truthy a then a else b)"

definition get_default :: "(string \<rightharpoonup> string) \<Rightarrow> string \<Rightarrow> string \<Rightarrow> string" where
  "get_default d k dflt = (case d k of None \<Rightarrow> dflt | Some v \<Rightarrow> v)"

text \<open>The state of a \<open>TokenManager\<close> is its slot \<open>_token\<close>.\<close>

definition refresh_token ::
  "(string \<rightharpoonup> string) reply \<Rightarrow> Token option \<Rightarrow> (py_error + unit) \<times> Token option" where
  "refresh_token rp slot =
     (case rp of
        NoReply \<Rightarrow> (Inl TransportError, slot)
      | Reply r \<Rightarrow>
          if \<not> is_success (status_code r) then (Inl (HTTPStatusError (status_code r)), slot)
          else (case json r of
                  None \<Rightarrow> (Inl JSONDecodeError, slot)
                | Some result \<Rightarrow>
                    (case py_or (result ''token'') (result ''access_token'') of
                       None \<Rightarrow> (Inl RuntimeError, slot)
                     | Some tk \<Rightarrow>
                         if tk = [] then (Inl RuntimeError, slot)
                         else (Inr (),
                               Some \<lparr> access_token = tk,
                                      token_type = get_default result ''token_type'' ''Bearer'',
                                      expires_dt = get_default result ''expires_dt'' [] \<rparr>))))"

text \<open>
  The property \<open>TokenManager.token\<close>. \<open>needs_refresh\<close> is its condition
  \<open>self._token is None or self._token.is_expired\<close>.
\<close>

definition needs_refresh :: "Token option \<Rightarrow> datetime \<Rightarrow> py_error + bool" where
  "needs_refresh slot now = (case slot of None \<Rightarrow> Inr True | Some tok \<Rightarrow> is_expired tok now)"

definition token ::
  "datetime \<Rightarrow> (string \<rightharpoonup> string) reply \<Rightarrow> Token option \<Rightarrow> (py_error + string) \<times> Token option" where
  "token now rp slot =
     (case needs_refresh slot now of
        Inl e \<Rightarrow> (Inl e, slot)
      | Inr True \<Rightarrow>
          (case refresh_token rp slot of
             (Inl e, slot') \<Rightarrow> (Inl e, slot')
           | (Inr u, slot') \<Rightarrow>
               (case slot' of
                  None \<Rightarrow> (Inl AttributeError, slot')
                | Some tok \<Rightarrow> (Inr (access_token tok), slot')))
      | Inr False \<Rightarrow>
          (case slot of
             None \<Rightarrow> (Inl AttributeError, slot)
           | Some tok \<Rightarrow> (Inr (access_token tok), slot)))"

definition get_auth_header ::
  "string \<Rightarrow> datetime \<Rightarrow> (string \<rightharpoonup> string) reply \<Rightarrow> Token option
     \<Rightarrow> (py_error + (string \<times> string) list) \<times> Token option" where
  "get_auth_header api_id now rp slot =
     (case token now rp slot of
        (Inl e, slot') \<Rightarrow> (Inl e, slot')
      | (Inr tk, slot') \<Rightarrow>
          (Inr [(''api-id'', api_id),
                (''authorization'', ''Bearer '' @ tk),
                (''content-type'', ''application/json;charset=UTF-8'')], slot'))"

section \<open>client.py: the request executor\<close>

text \<open>A decoded JSON document.\<close>

datatype json_value =
    JNull
  | JBool bool
  | JInt int
  | JFloat real
  | JStr string
  | JList "json_value list"
  | JDict "(string \<times> json_value) list"

text \<open>
  What one pass through the loop of \<open>_request\<close> reads from outside the program: the two
  readings of \<open>time.time()\<close> in \<open>_wait_for_rate_limit\<close>, the reading of \<open>datetime.now()\<close>
  in the token check, the reply of the token endpoint should a refresh be made, and the
  reply of the API endpoint to \<open>client.post\<close>.
\<close>

record attempt_env =
  time_before :: real
  time_after :: real
  now_dt :: datetime
  auth_reply :: "(string \<rightharpoonup> string) reply"
  api_reply :: "json_value reply"

text \<open>
  The state of a \<open>KiwoomClient\<close>: the slot of its token manager, \<open>_last_request_time\<close>,
  and the calls of \<open>time.sleep\<close> made so far, oldest first.
\<close>

datatype sleep_event = Pacing real | Backoff int

record client_state =
  token_slot :: "Token option"
  last_request_time :: real
  sleeps :: "sleep_event list"

definition MIN_REQUEST_INTERVAL :: real where
  "MIN_REQUEST_INTERVAL = 0.35"

definition wait_for_rate_limit :: "attempt_env \<Rightarrow> client_state \<Rightarrow> client_state" where
  "wait_for_rate_limit e st =
     (let elapsed = time_before e - last_request_time st;
          st' = (if elapsed < MIN_REQUEST_INTERVAL
                 then st\<lparr>sleeps := sleeps st @ [Pacing (MIN_REQUEST_INTERVAL - elapsed)]\<rparr>
                 else st)
      in st'\<lparr>last_request_time := time_after e\<rparr>)"

text \<open>
  \<open>wait_s = int(retry_after) if retry_after else (attempt + 1) * 2\<close>, where \<open>retry_after\<close>
  is \<open>response.headers.get("Retry-After")\<close>.
\<close>

definition wait_s :: "string option \<Rightarrow> int \<Rightarrow> py_error + int" where
  "wait_s ra attempt =
     (case ra of
        None \<Rightarrow> Inr ((attempt + 1) * 2)
      | Some v \<Rightarrow> if v \<noteq> [] then py_int v else Inr ((attempt + 1) * 2))"

definition failure_payload :: json_value where
  "failure_payload = JDict [(''return_code'', JInt 1), (''return_msg'', JStr ''request failed'')]"

text \<open>
  The loop \<open>for attempt in range(retry_count)\<close> of \<open>_request\<close>, from \<open>attempt\<close> on, and
  the \<open>return\<close> after it. The replies do not depend on what is sent, so the URL, the body
  and the continuation headers are left out; \<open>time.sleep\<close> raises \<open>ValueError\<close> for a
  negative length. Exceptions other than \<open>HTTPStatusError\<close> leave the loop at once.
\<close>

function request_loop ::
  "string \<Rightarrow> (nat \<Rightarrow> attempt_env) \<Rightarrow> int \<Rightarrow> int \<Rightarrow> client_state
     \<Rightarrow> (py_error + json_value) \<times> client_state" where
  "request_loop api_id env retry_count attempt st =
     (if \<not> attempt < retry_count then (Inr failure_payload, st)
      else
        let e = env (nat attempt);
            st1 = wait_for_rate_limit e st
        in (case get_auth_header api_id (now_dt e) (auth_reply e) (token_slot st1) of
              (Inl ex, slot) \<Rightarrow> (Inl ex, st1\<lparr>token_slot := slot\<rparr>)
            | (Inr headers, slot) \<Rightarrow>
                (let st2 = st1\<lparr>token_slot := slot\<rparr>
                 in (case api_reply e of
                       NoReply \<Rightarrow> (Inl TransportError, st2)
                     | Reply r \<Rightarrow>
                         if status_code r = 429 \<and> attempt < retry_count - 1
                         then (case wait_s (retry_after r) attempt of
                                 Inl ex \<Rightarrow> (Inl ex, st2)
                               | Inr w \<Rightarrow>
                                   if w < 0 then (Inl ValueError, st2)
                                   else request_loop api_id env retry_count (attempt + 1)
                                          (st2\<lparr>sleeps := sleeps st2 @ [Backoff w]\<rparr>))
                         else if \<not> is_success (status_code r)
                         then (if attempt = retry_count - 1
                               then (Inl (HTTPStatusError (status_code r)), st2)
                               else request_loop api_id env retry_count (attempt + 1) st2)
                         else (case json r of
                                 None \<Rightarrow> (Inl JSONDecodeError, st2)
                               | Some j \<Rightarrow> (Inr j, st2))))))"
  by pat_completeness auto
termination
  by (relation "measure (\<lambda>(api_id, env, retry_count, attempt, st). nat (retry_count - attempt))")
     auto

declare request_loop.simps [simp del]

definition request :: "string \<Rightarrow> (nat \<Rightarrow> attempt_env) \<Rightarrow> int \<Rightarrow> client_state
     \<Rightarrow> (py_error + json_value) \<times> client_state" where
  "request api_id env retry_count st = request_loop api_id env retry_count 0 st"

text \<open>The delays of the backoff sleeps in a log of sleeps, oldest first.\<close>

fun backoff_delays :: "sleep_event list \<Rightarrow> int list" where
  "backoff_delays [] = []"
| "backoff_delays (Backoff w # es) = w # backoff_delays es"
| "backoff_delays (Pacing d # es) = backoff_delays es"

section \<open>Inputs used in the examples\<close>

text \<open>The closes \<open>[100]*20 + [90,88,87,86,85] + [95,97,99,101,103]\<close>, with flat volumes.\<close>

definition c2_closes :: "real list" where
  "c2_closes = replicate 20 100 @ [90, 88, 87, 86, 85] @ [95, 97, 99, 101, 103]"

definition c2_volumes :: "int list" where
  "c2_volumes = replicate 30 1000"

text \<open>Flat closes whose last five volumes are zero after a traded window.\<close>

definition c4_closes :: "real list" where
  "c4_closes = replicate 30 100"

definition c4_volumes :: "int list" where
  "c4_volumes = replicate 25 1000 @ replicate 5 0"

text \<open>
  A series whose closes are all zero (chart items without a price field parse to 0.0),
  and the row the evaluator returns for it with the band \<open>[0, 15]\<close>.
\<close>

definition c5_closes :: "real list" where
  "c5_closes = replicate 30 0"

definition c5_row :: SignalRow where
  "c5_row = \<lparr> code = ''000000'', name = ''halted'', current_price = 0, retrace_pct = 0,
               short_ma = 0, long_ma = 0, volume_ratio = 1,
               pullback_ok = False, rebound_ok = True, signal = False, signal_score = 40 \<rparr>"

text \<open>A batch of three rows: one without signal and a high volume ratio, two with signal.\<close>

definition row_of :: "string \<Rightarrow> bool \<Rightarrow> real \<Rightarrow> real \<Rightarrow> SignalRow" where
  "row_of cd sg sc vr =
     \<lparr> code = cd, name = cd, current_price = 100, retrace_pct = 5, short_ma = 100,
       long_ma = 100, volume_ratio = vr, pullback_ok = sg, rebound_ok = sg, signal = sg,
       signal_score = sc \<rparr>"

definition c8_rows :: "SignalRow list" where
  "c8_rows = [row_of ''A'' False 60 5, row_of ''B'' True 80 1, row_of ''C'' True 85 (5 / 4)]"

text \<open>
  Noon of 2024-01-01 as a reading of the clock, a cached token with a given expiry, and
  a reply of the token endpoint that carries a new token.
\<close>

definition c6_now :: datetime where
  "c6_now = 63839707200000000"

definition c6_token :: "string \<Rightarrow> Token" where
  "c6_token ex = \<lparr> access_token = ''cached'', token_type = ''Bearer'', expires_dt = ex \<rparr>"

definition c6_result :: "string \<rightharpoonup> string" where
  "c6_result = [''token'' \<mapsto> ''fresh'', ''expires_dt'' \<mapsto> ''20240102120000'']"

definition c6_response :: "(string \<rightharpoonup> string) response" where
  "c6_response = \<lparr> status_code = 200, retry_after = None, json = Some c6_result \<rparr>"

text \<open>
  A server that answers the attempts with the given status codes, without a
  \<open>Retry-After\<close> header and with a body that names the status; attempts are ten time
  units apart. The client starts with a cached token that never expires.
\<close>

definition status_body :: "int \<Rightarrow> json_value" where
  "status_body sc = JDict [(''return_code'', JInt 0), (''status'', JInt sc)]"

definition status_env :: "int list \<Rightarrow> nat \<Rightarrow> attempt_env" where
  "status_env codes n =
     \<lparr> time_before = 100 + 10 * real n, time_after = 101 + 10 * real n, now_dt = c6_now,
       auth_reply = NoReply,
       api_reply = (if n < length codes
                    then Reply \<lparr> status_code = codes ! n, retry_after = None,
                                 json = Some (status_body (codes ! n)) \<rparr>
                    else NoReply) \<rparr>"

definition c1_state :: client_state where
  "c1_state = \<lparr> token_slot = Some (c6_token []), last_request_time = 0, sleeps = [] \<rparr>"


section \<open>The swing signal evaluator\<close>

subsection \<open>The end-to-end example\<close>

lemma c2_expand:
  "c2_closes = [100, 100, 100, 100, 100, 100, 100, 100, 100, 100,
                100, 100, 100, 100, 100, 100, 100, 100, 100, 100,
                90, 88, 87, 86, 85, 95, 97, 99, 101, 103]"
  by (simp add: c2_closes_def numeral_eq_Suc)

lemma c2_length: "length c2_closes = 30"
  by (simp add: c2_closes_def)

lemma c2_last: "last c2_closes = 103"
  by (simp add: c2_closes_def)

lemma c2_recent_high: "py_max c2_closes = Inr 103"
  by (simp add: c2_expand)

lemma c2_short_ma: "avg (py_slice_from c2_closes (- 5)) = 99"
  by (simp add: c2_expand py_slice_from_def py_bound_def avg_def)

lemma c2_long_ma: "avg (py_slice_from c2_closes (- 20)) = 1931 / 20"
  by (simp add: c2_expand py_slice_from_def py_bound_def avg_def)

lemma c2_prev5_high: "py_max (py_slice c2_closes (- 6) (- 1)) = Inr 101"
  by (simp add: c2_expand py_slice_def py_bound_def)

lemma c2_vols:
  "avg (map real_of_int (py_slice_from c2_volumes (- 5))) = 1000"
  "avg (map real_of_int (py_slice c2_volumes (- 25) (- 5))) = 1000"
  by (simp_all add: c2_volumes_def py_slice_from_def py_slice_def py_bound_def avg_def
        sum_list_replicate)

text \<open>
  Claim C2, as stated, fails: on the closes \<open>[100]*20 + [90,88,87,86,85] + [95,97,99,101,103]\<close>
  with the default thresholds (120, 3.0, 15.0, 1.0) the last close 103 is itself the
  recent high, the retracement is 0 and lies below \<open>pullback_min\<close>; with flat volumes the
  evaluator returns \<open>pullback_ok = False\<close>, \<open>rebound_ok = True\<close>, \<open>signal = False\<close>.
\<close>

theorem evaluate_signal_c2_counterexample:
  "evaluate_signal ''005930'' ''sample'' c2_closes c2_volumes 120 3 15 1 =
     Inr (Some \<lparr> code = ''005930'', name = ''sample'', current_price = 103, retrace_pct = 0,
                  short_ma = 99, long_ma = 1931 / 20, volume_ratio = 1,
                  pullback_ok = False, rebound_ok = True, signal = False,
                  signal_score = 40 \<rparr>)"
  by (simp add: evaluate_signal_def c2_length c2_last c2_recent_high c2_short_ma c2_long_ma
        c2_prev5_high c2_vols Let_def)

text \<open>
  Claim C2, amended: on these closes with the default thresholds, whatever the volumes,
  the evaluator returns a row with \<open>retrace_pct = 0\<close>, \<open>pullback_ok = False\<close> and
  \<open>signal = False\<close>; \<open>rebound_ok\<close> is true exactly when the volume ratio is at least 1.0.
\<close>

theorem evaluate_signal_c2_amended:
  "\<exists>r. evaluate_signal cd nm c2_closes volumes 120 3 15 1 = Inr (Some r)
       \<and> current_price r = 103
       \<and> volume_ratio r =
            (if avg (map real_of_int (py_slice volumes (- 25) (- 5))) > 0
             then avg (map real_of_int (py_slice_from volumes (- 5)))
                    / avg (map real_of_int (py_slice volumes (- 25) (- 5)))
             else 0)
       \<and> retrace_pct r = 0 \<and> \<not> pullback_ok r \<and> \<not> signal r
       \<and> rebound_ok r = (volume_ratio r \<ge> 1)"
  by (simp add: evaluate_signal_def c2_length c2_last c2_recent_high c2_short_ma c2_long_ma
        c2_prev5_high Let_def)

subsection \<open>When a series is evaluated\<close>

lemma py_max_Inr: "xs \<noteq> [] \<Longrightarrow> \<exists>m. py_max xs = Inr m"
  by (cases xs) simp_all

lemma high_slice_nonempty:
  assumes "30 \<le> length closes" and "- int (length closes) < rhb"
  shows "(if int (length closes) \<ge> rhb then py_slice_from closes (- rhb) else closes) \<noteq> []"
  using assms by (auto simp: py_slice_from_def py_bound_def)

lemma prev5_slice_nonempty:
  assumes "30 \<le> length closes"
  shows "py_slice closes (- 6) (- 1) \<noteq> []"
  using assms by (auto simp: py_slice_def py_bound_def Let_def)

text \<open>
  A series of at least 30 closes is evaluated to a row unless \<open>recent_high_bars\<close> is so
  negative that the slice for the recent high is empty. The row, field by field:
\<close>

lemma evaluate_signal_row:
  assumes "30 \<le> length closes" and "- int (length closes) < rhb"
  shows "\<exists>r h p. evaluate_signal cd nm closes volumes rhb pmin pmax mvr = Inr (Some r)
           \<and> py_max (if int (length closes) \<ge> rhb
                      then py_slice_from closes (- rhb) else closes) = Inr h
           \<and> py_max (py_slice closes (- 6) (- 1)) = Inr p
           \<and> current_price r = last closes
           \<and> retrace_pct r = (if h > 0 then (h - last closes) / h * 100 else 0)
           \<and> short_ma r = avg (py_slice_from closes (- 5))
           \<and> long_ma r = avg (py_slice_from closes (- 20))
           \<and> volume_ratio r =
                (if avg (map real_of_int (py_slice volumes (- 25) (- 5))) > 0
                 then avg (map real_of_int (py_slice_from volumes (- 5)))
                        / avg (map real_of_int (py_slice volumes (- 25) (- 5)))
                 else 0)
           \<and> pullback_ok r = (pmin \<le> retrace_pct r \<and> retrace_pct r \<le> pmax
                               \<and> long_ma r > 0 \<and> current_price r \<ge> long_ma r * 0.98)
           \<and> rebound_ok r = (current_price r \<ge> p \<and> short_ma r \<ge> long_ma r
                              \<and> volume_ratio r \<ge> mvr)
           \<and> signal r = (pullback_ok r \<and> rebound_ok r)
           \<and> signal_score r = 0 + (if pullback_ok r then 40 else 0)
                                 + (if rebound_ok r then 40 else 0)
                                 + min 20 (max 0 ((volume_ratio r - 1) * 20))"
proof -
  obtain h where h: "py_max (if int (length closes) \<ge> rhb
                             then py_slice_from closes (- rhb) else closes) = Inr h"
    using py_max_Inr [OF high_slice_nonempty [OF assms]] by blast
  obtain p where p: "py_max (py_slice closes (- 6) (- 1)) = Inr p"
    using py_max_Inr [OF prev5_slice_nonempty [OF assms(1)]] by blast
  have "\<not> length closes < 30" "6 \<le> length closes" using assms(1) by simp_all
  then show ?thesis
    using h p unfolding evaluate_signal_def Let_def by simp
qed

lemma evaluate_signal_short: "length closes < 30 \<Longrightarrow>
    evaluate_signal cd nm closes volumes rhb pmin pmax mvr = Inr None"
  by (simp add: evaluate_signal_def)

lemma replicate_30:
  "replicate 30 x = [x, x, x, x, x, x, x, x, x, x, x, x, x, x, x,
                     x, x, x, x, x, x, x, x, x, x, x, x, x, x, x]"
  by (simp add: numeral_eq_Suc)

subsection \<open>The volume ratio\<close>

lemma sum_list_real_of_int: "sum_list (map real_of_int vs) = real_of_int (sum_list vs)"
  by (induction vs) simp_all

lemma sum_list_nonneg_int: "\<forall>v\<in>set vs. (0::int) \<le> v \<Longrightarrow> 0 \<le> sum_list vs"
  by (induction vs) simp_all

lemma set_py_slice_from: "set (py_slice_from xs a) \<subseteq> set xs"
  by (simp add: py_slice_from_def set_drop_subset)

lemma set_py_slice: "set (py_slice xs a b) \<subseteq> set xs"
  unfolding py_slice_def Let_def
  by (meson set_take_subset set_drop_subset subset_trans)

lemma ratio_zero_iff:
  fixes a b :: real
  assumes "0 \<le> a" and "0 \<le> b"
  shows "0 \<le> (if b > 0 then a / b else 0)"
    and "(if b > 0 then a / b else 0) = 0 \<longleftrightarrow> b = 0 \<or> a = 0"
  using assms by auto

lemma c4_closes_facts:
  "length c4_closes = 30" "last c4_closes = 100" "py_max c4_closes = Inr 100"
  "avg (py_slice_from c4_closes (- 5)) = 100" "avg (py_slice_from c4_closes (- 20)) = 100"
  "py_max (py_slice c4_closes (- 6) (- 1)) = Inr 100"
  by (simp_all add: c4_closes_def replicate_30 py_slice_from_def py_slice_def py_bound_def
        avg_def)

lemma c4_volumes_facts:
  "avg (map real_of_int (py_slice_from c4_volumes (- 5))) = 0"
  "avg (map real_of_int (py_slice c4_volumes (- 25) (- 5))) = 1000"
  "sum_list (py_slice c4_volumes (- 25) (- 5)) = 20000"
  "sum_list (py_slice_from c4_volumes (- 5)) = 0"
  by (simp_all add: c4_volumes_def py_slice_from_def py_slice_def py_bound_def avg_def
        sum_list_replicate)

text \<open>
  Claim C4, as stated, fails in its "exactly when": with thirty closes of 100 and the
  volumes \<open>[1000]*25 + [0]*5\<close> the window \<open>volumes[-25:-5]\<close> sums to 20000, and the ratio is
  0 all the same, because the last five volumes are 0.
\<close>

theorem vol_ratio_counterexample:
  "evaluate_signal ''005930'' ''sample'' c4_closes c4_volumes 120 3 15 1 =
     Inr (Some \<lparr> code = ''005930'', name = ''sample'', current_price = 100, retrace_pct = 0,
                  short_ma = 100, long_ma = 100, volume_ratio = 0,
                  pullback_ok = False, rebound_ok = False, signal = False,
                  signal_score = 0 \<rparr>)
   \<and> sum_list (py_slice c4_volumes (- 25) (- 5)) = 20000"
  by (simp add: evaluate_signal_def c4_closes_facts c4_volumes_facts Let_def)

text \<open>
  Claim C4, amended: for every series that is evaluated (at least 30 closes) with
  non-negative volumes, the volume ratio of the row is at least 0, and it is 0 exactly
  when the window \<open>volumes[-25:-5]\<close> sums to 0 or the last five volumes \<open>volumes[-5:]\<close>
  sum to 0.
\<close>

theorem vol_ratio_zero_iff:
  assumes "30 \<le> length closes" and "- int (length closes) < rhb"
    and "\<forall>v\<in>set volumes. 0 \<le> v"
  shows "\<exists>r. evaluate_signal cd nm closes volumes rhb pmin pmax mvr = Inr (Some r)
           \<and> 0 \<le> volume_ratio r
           \<and> (volume_ratio r = 0 \<longleftrightarrow>
                sum_list (py_slice volumes (- 25) (- 5)) = 0
                \<or> sum_list (py_slice_from volumes (- 5)) = 0)"
proof -
  let ?w = "py_slice volumes (- 25) (- 5)" and ?l = "py_slice_from volumes (- 5)"
  have w: "0 \<le> sum_list ?w"
    using assms(3) set_py_slice [of volumes] by (intro sum_list_nonneg_int) blast
  have l: "0 \<le> sum_list ?l"
    using assms(3) set_py_slice_from [of volumes] by (intro sum_list_nonneg_int) blast
  have aw: "0 \<le> avg (map real_of_int ?w)"
    "avg (map real_of_int ?w) = 0 \<longleftrightarrow> sum_list ?w = 0"
    using w by (simp_all add: avg_def sum_list_real_of_int)
  have al: "0 \<le> avg (map real_of_int ?l)"
    "avg (map real_of_int ?l) = 0 \<longleftrightarrow> sum_list ?l = 0"
    using l by (simp_all add: avg_def sum_list_real_of_int)
  from evaluate_signal_row [OF assms(1,2), of cd nm volumes pmin pmax mvr]
  obtain r where r: "evaluate_signal cd nm closes volumes rhb pmin pmax mvr = Inr (Some r)"
    and vr: "volume_ratio r =
               (if avg (map real_of_int ?w) > 0
                then avg (map real_of_int ?l) / avg (map real_of_int ?w) else 0)"
    by blast
  have "0 \<le> volume_ratio r"
    unfolding vr by (rule ratio_zero_iff(1) [OF al(1) aw(1)])
  moreover have "volume_ratio r = 0 \<longleftrightarrow> sum_list ?w = 0 \<or> sum_list ?l = 0"
    unfolding vr ratio_zero_iff(2) [OF al(1) aw(1)] aw(2) al(2) ..
  ultimately show ?thesis using r by blast
qed

theorem vol_ratio_zero_iff_witness:
  "\<exists>r. evaluate_signal ''005930'' ''sample'' c4_closes c4_volumes 120 3 15 1 = Inr (Some r)
       \<and> 0 \<le> volume_ratio r
       \<and> (volume_ratio r = 0 \<longleftrightarrow>
            sum_list (py_slice c4_volumes (- 25) (- 5)) = 0
            \<or> sum_list (py_slice_from c4_volumes (- 5)) = 0)"
  using vol_ratio_zero_iff [of c4_closes 120 c4_volumes "''005930''" "''sample''" 3 15 1]
  by (simp add: c4_closes_facts) (simp add: c4_volumes_def)

subsection \<open>The pullback condition\<close>

lemma c5_closes_facts:
  "length c5_closes = 30" "last c5_closes = 0" "py_max c5_closes = Inr 0"
  "avg (py_slice_from c5_closes (- 5)) = 0" "avg (py_slice_from c5_closes (- 20)) = 0"
  "py_max (py_slice c5_closes (- 6) (- 1)) = Inr 0"
  by (simp_all add: c5_closes_def replicate_30 py_slice_from_def py_slice_def py_bound_def
        avg_def)

text \<open>
  Claim C5, as stated, fails: for thirty closes of 0 and the band \<open>[0, 15]\<close> the
  retracement 0 lies within the band and the close 0 is at least 98% of the long average
  0, and \<open>pullback_ok\<close> is false, because the code also asks for \<open>long_ma > 0\<close>.
\<close>

theorem pullback_ok_counterexample:
  "evaluate_signal ''000000'' ''halted'' c5_closes c2_volumes 120 0 15 1 = Inr (Some c5_row)
   \<and> \<not> pullback_ok c5_row
   \<and> (0 \<le> retrace_pct c5_row \<and> retrace_pct c5_row \<le> 15
        \<and> current_price c5_row \<ge> long_ma c5_row * 0.98)"
  by (simp add: evaluate_signal_def c5_closes_facts c2_vols Let_def c5_row_def)

text \<open>
  Claim C5, amended: for every series that is evaluated (at least 30 closes) and every
  band \<open>[pullback_min, pullback_max]\<close>, \<open>pullback_ok\<close> holds if and only if \<open>retrace_pct\<close>
  lies within the band, \<open>long_ma\<close> is positive and the current close is at least 98% of
  \<open>long_ma\<close>; here \<open>retrace_pct\<close> is the percent drop of the last close from the recent high
  \<open>h\<close> (0 when \<open>h\<close> is not positive) and \<open>long_ma\<close> the mean of the last 20 closes.
\<close>

theorem pullback_ok_iff:
  assumes "30 \<le> length closes" and "- int (length closes) < rhb"
  shows "\<exists>r h. evaluate_signal cd nm closes volumes rhb pmin pmax mvr = Inr (Some r)
           \<and> py_max (if int (length closes) \<ge> rhb
                      then py_slice_from closes (- rhb) else closes) = Inr h
           \<and> current_price r = last closes
           \<and> retrace_pct r = (if h > 0 then (h - last closes) / h * 100 else 0)
           \<and> long_ma r = avg (py_slice_from closes (- 20))
           \<and> pullback_ok r =
               (pmin \<le> retrace_pct r \<and> retrace_pct r \<le> pmax
                \<and> long_ma r > 0 \<and> current_price r \<ge> long_ma r * 0.98)"
  using evaluate_signal_row [OF assms, of cd nm volumes pmin pmax mvr] by blast

theorem pullback_ok_iff_witness:
  "\<exists>r. evaluate_signal ''000000'' ''halted'' c5_closes c2_volumes 120 0 15 1 = Inr (Some r)
       \<and> current_price r = 0 \<and> retrace_pct r = 0 \<and> long_ma r = 0 \<and> \<not> pullback_ok r
       \<and> pullback_ok r =
           (0 \<le> retrace_pct r \<and> retrace_pct r \<le> 15
            \<and> long_ma r > 0 \<and> current_price r \<ge> long_ma r * 0.98)"
  using pullback_ok_iff [of c5_closes 120 "''000000''" "''halted''" c2_volumes 0 15 1]
  by (auto simp: c5_closes_facts)

subsection \<open>The score\<close>

lemma score_bounds:
  fixes v :: real
  shows "0 \<le> 0 + (if a then 40 else 0) + (if b then 40 else 0)
               + min 20 (max 0 ((v - 1) * 20))"
    and "0 + (if a then 40 else 0) + (if b then 40 else 0)
           + min 20 (max 0 ((v - 1) * 20)) \<le> (100::real)"
  by (simp_all add: min_def max_def)

text \<open>
  Claim C7: for every series that is evaluated and every parameter set, the score of the
  row lies in \<open>[0, 100]\<close> and is 40 for \<open>pullback_ok\<close> plus 40 for \<open>rebound_ok\<close> plus
  \<open>(vol_ratio - 1.0) * 20\<close> clamped to \<open>[0, 20]\<close>, where \<open>pullback_ok\<close>, \<open>rebound_ok\<close> and
  \<open>vol_ratio\<close> are what the evaluator computes from the closes, the volumes and the
  thresholds: \<open>h\<close> is the recent high and \<open>p\<close> the high of the five bars before the last.
\<close>

theorem signal_score_range:
  assumes "30 \<le> length closes" and "- int (length closes) < rhb"
  shows "\<exists>r h p. evaluate_signal cd nm closes volumes rhb pmin pmax mvr = Inr (Some r)
           \<and> py_max (if int (length closes) \<ge> rhb
                      then py_slice_from closes (- rhb) else closes) = Inr h
           \<and> py_max (py_slice closes (- 6) (- 1)) = Inr p
           \<and> volume_ratio r =
                (if avg (map real_of_int (py_slice volumes (- 25) (- 5))) > 0
                 then avg (map real_of_int (py_slice_from volumes (- 5)))
                        / avg (map real_of_int (py_slice volumes (- 25) (- 5)))
                 else 0)
           \<and> pullback_ok r =
                (pmin \<le> (if h > 0 then (h - last closes) / h * 100 else 0)
                 \<and> (if h > 0 then (h - last closes) / h * 100 else 0) \<le> pmax
                 \<and> avg (py_slice_from closes (- 20)) > 0
                 \<and> last closes \<ge> avg (py_slice_from closes (- 20)) * 0.98)
           \<and> rebound_ok r =
                (last closes \<ge> p
                 \<and> avg (py_slice_from closes (- 5)) \<ge> avg (py_slice_from closes (- 20))
                 \<and> volume_ratio r \<ge> mvr)
           \<and> 0 \<le> signal_score r \<and> signal_score r \<le> 100
           \<and> signal_score r =
               (if pullback_ok r then 40 else 0) + (if rebound_ok r then 40 else 0)
                 + min 20 (max 0 ((volume_ratio r - 1) * 20))"
proof -
  from evaluate_signal_row [OF assms, of cd nm volumes pmin pmax mvr]
  obtain r h p where
    r: "evaluate_signal cd nm closes volumes rhb pmin pmax mvr = Inr (Some r)"
    and h: "py_max (if int (length closes) \<ge> rhb
                    then py_slice_from closes (- rhb) else closes) = Inr h"
    and p: "py_max (py_slice closes (- 6) (- 1)) = Inr p"
    and f: "current_price r = last closes"
      "retrace_pct r = (if h > 0 then (h - last closes) / h * 100 else 0)"
      "short_ma r = avg (py_slice_from closes (- 5))"
      "long_ma r = avg (py_slice_from closes (- 20))"
    and vr: "volume_ratio r =
                (if avg (map real_of_int (py_slice volumes (- 25) (- 5))) > 0
                 then avg (map real_of_int (py_slice_from volumes (- 5)))
                        / avg (map real_of_int (py_slice volumes (- 25) (- 5)))
                 else 0)"
    and pb: "pullback_ok r = (pmin \<le> retrace_pct r \<and> retrace_pct r \<le> pmax
                               \<and> long_ma r > 0 \<and> current_price r \<ge> long_ma r * 0.98)"
    and rb: "rebound_ok r = (current_price r \<ge> p \<and> short_ma r \<ge> long_ma r
                              \<and> volume_ratio r \<ge> mvr)"
    and sc: "signal_score r =
               0 + (if pullback_ok r then 40 else 0) + (if rebound_ok r then 40 else 0)
                 + min 20 (max 0 ((volume_ratio r - 1) * 20))"
    by blast
  have pb': "pullback_ok r =
                (pmin \<le> (if h > 0 then (h - last closes) / h * 100 else 0)
                 \<and> (if h > 0 then (h - last closes) / h * 100 else 0) \<le> pmax
                 \<and> avg (py_slice_from closes (- 20)) > 0
                 \<and> last closes \<ge> avg (py_slice_from closes (- 20)) * 0.98)"
    unfolding pb f ..
  have rb': "rebound_ok r =
                (last closes \<ge> p
                 \<and> avg (py_slice_from closes (- 5)) \<ge> avg (py_slice_from closes (- 20))
                 \<and> volume_ratio r \<ge> mvr)"
    unfolding rb f ..
  have b: "0 \<le> signal_score r" "signal_score r \<le> 100"
    unfolding sc by (rule score_bounds)+
  have e: "signal_score r =
                   (if pullback_ok r then 40 else 0) + (if rebound_ok r then 40 else 0)
                     + min 20 (max 0 ((volume_ratio r - 1) * 20))"
    unfolding sc by simp
  show ?thesis
    using r h p vr pb' rb' b e by blast
qed

theorem signal_score_range_witness:
  "\<exists>r. evaluate_signal ''005930'' ''sample'' c2_closes c2_volumes 120 3 15 1 = Inr (Some r)
       \<and> volume_ratio r = 1 \<and> \<not> pullback_ok r \<and> rebound_ok r
       \<and> 0 \<le> signal_score r \<and> signal_score r \<le> 100
       \<and> signal_score r = 40
       \<and> signal_score r =
           (if pullback_ok r then 40 else 0) + (if rebound_ok r then 40 else 0)
             + min 20 (max 0 ((volume_ratio r - 1) * 20))"
  using signal_score_range [of c2_closes 120 "''005930''" "''sample''" c2_volumes 3 15 1]
  by (auto simp: c2_length c2_last c2_recent_high c2_short_ma c2_long_ma c2_prev5_high c2_vols)

subsection \<open>The order of a batch\<close>

lemma sort_rows_descending:
  "sorted_wrt (\<lambda>a b. sort_key_of a \<ge> sort_key_of b) (sort_rows rows)"
proof -
  have "sorted (map sort_key_of (sort_key sort_key_of (rev rows)))"
    by (rule sorted_sort_key)
  then have "sorted_wrt (\<lambda>a b. sort_key_of a \<le> sort_key_of b)
               (sort_key sort_key_of (rev rows))"
    by (simp add: sorted_map)
  then show ?thesis
    by (simp add: sort_rows_def sorted_wrt_rev)
qed

lemma key_le_signal: "sort_key_of b \<le> sort_key_of a \<Longrightarrow> signal b \<Longrightarrow> signal a"
  by (auto simp: sort_key_of_def less_eq_prod_def)

lemma mset_sort_rows: "mset (sort_rows rows) = mset rows"
  by (simp add: sort_rows_def)

lemma c8_sorted:
  "sort_rows c8_rows =
     [row_of ''C'' True 85 (5 / 4), row_of ''B'' True 80 1, row_of ''A'' False 60 5]"
  by (simp add: sort_rows_def c8_rows_def sort_key_of_def row_of_def less_eq_prod_def)

text \<open>
  Claim C8: in a batch sorted descending by \<open>(signal, signal_score, volume_ratio)\<close>, which
  holds the rows of the batch and no others, a row with \<open>signal = True\<close> is never preceded
  by a row with \<open>signal = False\<close>, whatever the scores and volume ratios: if the row at a
  later position has the signal, so has the row at any earlier position.
\<close>

theorem sort_rows_signal_first:
  assumes "i < j" and "j < length rows" and "signal (sort_rows rows ! j)"
  shows "signal (sort_rows rows ! i) \<and> mset (sort_rows rows) = mset rows"
proof -
  have len: "length (sort_rows rows) = length rows"
    by (simp add: sort_rows_def)
  have "sort_key_of (sort_rows rows ! j) \<le> sort_key_of (sort_rows rows ! i)"
    using sort_rows_descending [of rows] assms(1,2) len
    by (simp add: sorted_wrt_iff_nth_less)
  then have "signal (sort_rows rows ! i)"
    using assms(3) by (rule key_le_signal)
  then show ?thesis
    by (simp add: mset_sort_rows)
qed

theorem sort_rows_signal_first_witness:
  "(0::nat) < 1 \<and> 1 < length c8_rows \<and> signal (sort_rows c8_rows ! 1)
     \<and> signal (sort_rows c8_rows ! 0) \<and> mset (sort_rows c8_rows) = mset c8_rows"
  using sort_rows_signal_first [of 0 1 c8_rows]
  by (simp add: c8_sorted) (simp add: c8_rows_def row_of_def)

section \<open>Price parsing\<close>














text \<open>
  Outside the well-formed strings the sign can survive: \<open>lstrip\<close> stops at the blanks
  that \<open>float\<close> then skips.
\<close>

lemma parse_price_negative: "parse_price (PStr '',  -5'') = Inr (- 5)"
  by (simp add: parse_price_def strip_def is_space_def replace_char_def lstrip_chars_def
        py_float_def split_sign_def lower_def number_def digitpart_def is_digit_def
        digit_val_def exponent_def float_value_def nat_of_digits_def)



section \<open>Token freshness\<close>

subsection \<open>The range of \<open>strptime\<close>\<close>

lemma upto_months:
  "[1..(0::int)] = []" "[1..(1::int)] = [1]" "[1..(2::int)] = [1,2]" "[1..(3::int)] = [1,2,3]"
  "[1..(4::int)] = [1,2,3,4]" "[1..(5::int)] = [1,2,3,4,5]" "[1..(6::int)] = [1,2,3,4,5,6]"
  "[1..(7::int)] = [1,2,3,4,5,6,7]" "[1..(8::int)] = [1,2,3,4,5,6,7,8]"
  "[1..(9::int)] = [1,2,3,4,5,6,7,8,9]" "[1..(10::int)] = [1,2,3,4,5,6,7,8,9,10]"
  "[1..(11::int)] = [1,2,3,4,5,6,7,8,9,10,11]"
  by (simp_all add: upto.simps)

lemma month_cases:
  assumes "1 \<le> m" and "m \<le> (12::int)"
  shows "m = 1 \<or> m = 2 \<or> m = 3 \<or> m = 4 \<or> m = 5 \<or> m = 6 \<or> m = 7 \<or> m = 8 \<or> m = 9
           \<or> m = 10 \<or> m = 11 \<or> m = 12"
  using assms by arith

lemma days_in_year_bounds:
  assumes "1 \<le> m" and "m \<le> 12"
  shows "0 \<le> days_before_month y m"
    and "days_before_month y m + days_in_month y m \<le> (if is_leap y then 366 else 365)"
  using month_cases [OF assms]
  by (auto simp: days_before_month_def days_in_month_def upto_months)

lemma days_before_year_bounds:
  assumes "1 \<le> y" and "y \<le> 9999"
  shows "0 \<le> days_before_year y"
    and "days_before_year y + (if is_leap y then 366 else 365) \<le> 3652059"
proof -
  have d4: "0 \<le> (y - 1) div 4" "(y - 1) div 4 \<le> 2499" using assms by simp_all
  have d100: "0 \<le> (y - 1) div 100" "(y - 1) div 100 \<le> (y - 1) div 4"
    using assms by (simp_all add: zdiv_mono2)
  have d400: "0 \<le> (y - 1) div 400" "(y - 1) div 400 \<le> 24" using assms by simp_all
  show "0 \<le> days_before_year y"
    using assms d4 d100 d400 unfolding days_before_year_def by simp
  show "days_before_year y + (if is_leap y then 366 else 365) \<le> 3652059"
  proof (cases "y = 9999")
    case True
    then show ?thesis by (simp add: days_before_year_def is_leap_def)
  next
    case False
    then have "y \<le> 9998" using assms by simp
    then have "days_before_year y \<le> 3651428"
      using assms(1) d4 d100 d400 unfolding days_before_year_def by simp
    then show ?thesis by simp
  qed
qed

lemma ymd2ord_bounds:
  assumes "1 \<le> y" "y \<le> 9999" "1 \<le> m" "m \<le> 12" "1 \<le> d" "d \<le> days_in_month y m"
  shows "1 \<le> ymd2ord y m d" and "ymd2ord y m d \<le> 3652059"
  using days_in_year_bounds [OF assms(3,4), of y] days_before_year_bounds [OF assms(1,2)] assms(5,6)
  unfolding ymd2ord_def by (auto split: if_splits)

lemma max_datetime_eq: "max_datetime = 315537897599999999"
  by (simp add: max_datetime_def ymd2ord_def days_before_year_def days_before_month_def
        days_in_month_def is_leap_def upto_months)

lemma mk_datetime_range:
  assumes "mk_datetime y m d H M S = Inr e"
  shows "0 \<le> e" and "e \<le> max_datetime"
proof -
  have v: "1 \<le> y" "y \<le> 9999" "1 \<le> m" "m \<le> 12" "1 \<le> d" "d \<le> days_in_month y m"
    "0 \<le> H" "H \<le> 23" "0 \<le> M" "M \<le> 59" "0 \<le> S" "S \<le> 59"
    and e: "e = ((((ymd2ord y m d - 1) * 24 + H) * 60 + M) * 60 + S) * 1000000"
    using assms by (auto simp: mk_datetime_def split: if_splits)
  note o = ymd2ord_bounds [OF v(1-6)]
  show "0 \<le> e" unfolding e using o(1) v(7,9,11) by simp
  show "e \<le> max_datetime" unfolding e max_datetime_eq using o(2) v(8,10,12) by simp
qed

lemma strptime_Inr:
  assumes "strptime s = Inr e"
  shows "\<exists>y m d H M S. mk_datetime y m d H M S = Inr e"
proof (cases "re_match s")
  case Nil
  then show ?thesis using assms by (simp add: strptime_def)
next
  case (Cons a as)
  obtain y m d H M S r where a: "a = ((y, m, d, H, M, S), r)"
    by (metis prod.exhaust)
  have "mk_datetime y m d H M S = Inr e"
    using assms Cons a by (simp add: strptime_def split: if_splits)
  then show ?thesis by blast
qed

lemma strptime_range:
  assumes "strptime s = Inr e"
  shows "0 \<le> e" and "e \<le> max_datetime"
  using strptime_Inr [OF assms] mk_datetime_range by blast+

lemma strptime_empty: "strptime [] = Inl ValueError"
  by (simp add: strptime_def re_match_def re_Y_def)

lemma is_expired_parsed:
  assumes "strptime (expires_dt tok) = Inr e" and "timedelta_minutes 1 \<le> e"
  shows "is_expired tok now = Inr (now \<ge> e - timedelta_minutes 1)"
proof -
  have ne: "expires_dt tok \<noteq> []" using assms(1) strptime_empty by auto
  have "e - timedelta_minutes 1 \<le> max_datetime"
    using strptime_range(2) [OF assms(1)] by (simp add: timedelta_minutes_def)
  then show ?thesis
    using ne assms by (simp add: is_expired_def dt_minus_def)
qed

lemmas strptime_eval = strptime_def re_match_def re_Y_def re_m_def re_d_def re_H_def re_M_def
  re_S_def two_digits_def one_digit_def is_digit_def digit_val_def nat_of_digits_def
  mk_datetime_def ymd2ord_def days_before_year_def days_before_month_def days_in_month_def
  is_leap_def upto_months

lemma c6_now_eq: "mk_datetime 2024 1 1 12 0 0 = Inr c6_now"
  by (simp add: strptime_eval c6_now_def)

lemma c6_parse:
  "strptime ''20240101120030'' = Inr (c6_now + timedelta_seconds 30)"
  "strptime ''20240101120200'' = Inr (c6_now + timedelta_seconds 120)"
  by (simp_all add: strptime_eval c6_now_def timedelta_seconds_def)

lemma c10_parse: "strptime ''2024-12-31 23:59:59'' = Inl ValueError"
  by (simp add: strptime_eval)

subsection \<open>Access to the token\<close>

lemma token_cached:
  assumes "is_expired tok now = Inr False"
  shows "token now rp (Some tok) = (Inr (access_token tok), Some tok)"
  using assms by (simp add: token_def needs_refresh_def)

lemma token_refreshes:
  assumes "needs_refresh slot now = Inr True"
    and "is_success (status_code r)" and "json r = Some result"
    and "result ''token'' = Some tk" and "tk \<noteq> []"
  shows "token now (Reply r) slot =
           (Inr tk, Some \<lparr> access_token = tk,
                            token_type = get_default result ''token_type'' ''Bearer'',
                            expires_dt = get_default result ''expires_dt'' [] \<rparr>)"
  using assms by (simp add: token_def refresh_token_def py_or_def truthy_def)

text \<open>
  Claim C6: a cached token whose \<open>expires_dt\<close> reads 30 seconds after the clock is
  expired, and the access to \<open>token\<close> acquires a new token from the token endpoint (here:
  from a successful response \<open>r\<close> that carries the token \<open>tk\<close>); a token whose \<open>expires_dt\<close>
  reads 2 minutes after the clock is not expired and is returned from the cache; a token
  with an empty \<open>expires_dt\<close> is not expired at any time. The clock is taken at least 30
  seconds after 0001-01-01T00:00:00, so that the margin of one minute can be subtracted.
\<close>

theorem token_freshness:
  assumes "strptime (expires_dt t30) = Inr (now + timedelta_seconds 30)"
    and "timedelta_seconds 30 \<le> now"
    and "is_success (status_code r)" and "json r = Some result"
    and "result ''token'' = Some tk" and "tk \<noteq> []"
    and "strptime (expires_dt t120) = Inr (now + timedelta_seconds 120)"
    and "expires_dt t0 = []"
  shows "is_expired t30 now = Inr True
       \<and> token now (Reply r) (Some t30) =
           (Inr tk, Some \<lparr> access_token = tk,
                            token_type = get_default result ''token_type'' ''Bearer'',
                            expires_dt = get_default result ''expires_dt'' [] \<rparr>)
       \<and> is_expired t120 now = Inr False
       \<and> token now rp (Some t120) = (Inr (access_token t120), Some t120)
       \<and> is_expired t0 now' = Inr False
       \<and> token now' rp (Some t0) = (Inr (access_token t0), Some t0)"
proof -
  have a: "is_expired t30 now = Inr True"
    using is_expired_parsed [OF assms(1), of now] assms(2)
    by (simp add: timedelta_minutes_def timedelta_seconds_def)
  then have a': "needs_refresh (Some t30) now = Inr True"
    by (simp add: needs_refresh_def)
  have b: "is_expired t120 now = Inr False"
    using is_expired_parsed [OF assms(7), of now] assms(2)
    by (simp add: timedelta_minutes_def timedelta_seconds_def)
  have c: "is_expired t0 now' = Inr False"
    using assms(8) by (simp add: is_expired_def)
  show ?thesis
    using a b c token_refreshes [OF a' assms(3-6)] by (simp add: token_cached)
qed

theorem token_freshness_witness:
  "strptime (expires_dt (c6_token ''20240101120030'')) = Inr (c6_now + timedelta_seconds 30)
   \<and> strptime (expires_dt (c6_token ''20240101120200'')) = Inr (c6_now + timedelta_seconds 120)
   \<and> is_expired (c6_token ''20240101120030'') c6_now = Inr True
   \<and> token c6_now (Reply c6_response) (Some (c6_token ''20240101120030'')) =
       (Inr ''fresh'', Some \<lparr> access_token = ''fresh'', token_type = ''Bearer'',
                              expires_dt = ''20240102120000'' \<rparr>)
   \<and> is_expired (c6_token ''20240101120200'') c6_now = Inr False
   \<and> token c6_now NoReply (Some (c6_token ''20240101120200'')) =
       (Inr ''cached'', Some (c6_token ''20240101120200''))
   \<and> is_expired (c6_token []) 0 = Inr False
   \<and> token 0 NoReply (Some (c6_token [])) = (Inr ''cached'', Some (c6_token []))"
  using token_freshness [of "c6_token ''20240101120030''" c6_now c6_response c6_result
      "''fresh''" "c6_token ''20240101120200''" "c6_token []" NoReply 0]
  by (simp add: c6_token_def c6_parse c6_response_def c6_result_def is_success_def
        get_default_def)
     (simp add: c6_now_def timedelta_seconds_def)

text \<open>
  Claim C10: a token whose \<open>expires_dt\<close> is not empty and is rejected by \<open>strptime\<close> is
  not expired at any time, and every access to \<open>token\<close> returns it from the cache without
  a refresh.
\<close>

theorem malformed_never_expires:
  assumes "expires_dt tok \<noteq> []" and "strptime (expires_dt tok) = Inl ValueError"
  shows "is_expired tok now = Inr False
       \<and> token now rp (Some tok) = (Inr (access_token tok), Some tok)"
proof -
  have "is_expired tok now = Inr False"
    using assms by (simp add: is_expired_def)
  then show ?thesis by (simp add: token_cached)
qed

theorem malformed_never_expires_witness:
  "expires_dt (c6_token ''2024-12-31 23:59:59'') \<noteq> []
   \<and> strptime (expires_dt (c6_token ''2024-12-31 23:59:59'')) = Inl ValueError
   \<and> is_expired (c6_token ''2024-12-31 23:59:59'') c6_now = Inr False
   \<and> token c6_now NoReply (Some (c6_token ''2024-12-31 23:59:59'')) =
       (Inr ''cached'', Some (c6_token ''2024-12-31 23:59:59''))"
  using malformed_never_expires [of "c6_token ''2024-12-31 23:59:59''" c6_now NoReply]
  by (simp add: c6_token_def c10_parse)

section \<open>The request executor\<close>

subsection \<open>One pass through the loop\<close>

lemma backoff_delays_append:
  "backoff_delays (xs @ ys) = backoff_delays xs @ backoff_delays ys"
  by (induction xs rule: backoff_delays.induct) simp_all

lemma wait_for_rate_limit_keeps:
  "token_slot (wait_for_rate_limit e st) = token_slot st"
  "backoff_delays (sleeps (wait_for_rate_limit e st)) = backoff_delays (sleeps st)"
  by (simp_all add: wait_for_rate_limit_def Let_def backoff_delays_append)

lemma get_auth_header_cached:
  assumes "is_expired tok now = Inr False"
  shows "get_auth_header api_id now rp (Some tok) =
           (Inr [(''api-id'', api_id), (''authorization'', ''Bearer '' @ access_token tok),
                 (''content-type'', ''application/json;charset=UTF-8'')], Some tok)"
  using assms by (simp add: get_auth_header_def token_def needs_refresh_def)

lemma st_same_slot:
  "token_slot st = Some tok \<Longrightarrow>
     (wait_for_rate_limit e st)\<lparr>token_slot := Some tok\<rparr> = wait_for_rate_limit e st"
  by (simp add: wait_for_rate_limit_def Let_def)

lemma request_loop_done:
  "\<not> a < rc \<Longrightarrow> request_loop api_id env rc a st = (Inr failure_payload, st)"
  by (subst request_loop.simps) simp

lemma request_loop_429:
  assumes "0 \<le> a" and "a < rc - 1" and "token_slot st = Some tok"
    and "is_expired tok (now_dt (env (nat a))) = Inr False"
    and "api_reply (env (nat a)) = Reply r" and "status_code r = 429"
    and "wait_s (retry_after r) a = Inr w" and "0 \<le> w"
  shows "request_loop api_id env rc a st =
           request_loop api_id env rc (a + 1)
             ((wait_for_rate_limit (env (nat a)) st)
                \<lparr>sleeps := sleeps (wait_for_rate_limit (env (nat a)) st) @ [Backoff w]\<rparr>)"
  using assms
  by (subst request_loop.simps)
     (simp add: Let_def wait_for_rate_limit_keeps get_auth_header_cached st_same_slot)

lemma request_loop_error:
  assumes "0 \<le> a" and "a < rc" and "token_slot st = Some tok"
    and "is_expired tok (now_dt (env (nat a))) = Inr False"
    and "api_reply (env (nat a)) = Reply r" and "\<not> is_success (status_code r)"
    and "status_code r = 429 \<Longrightarrow> a = rc - 1"
  shows "request_loop api_id env rc a st =
           (if a = rc - 1
            then (Inl (HTTPStatusError (status_code r)), wait_for_rate_limit (env (nat a)) st)
            else request_loop api_id env rc (a + 1) (wait_for_rate_limit (env (nat a)) st))"
  using assms
  by (subst request_loop.simps)
     (auto simp: Let_def wait_for_rate_limit_keeps get_auth_header_cached st_same_slot)

lemma request_loop_success:
  assumes "0 \<le> a" and "a < rc" and "token_slot st = Some tok"
    and "is_expired tok (now_dt (env (nat a))) = Inr False"
    and "api_reply (env (nat a)) = Reply r" and "is_success (status_code r)"
    and "json r = Some j"
  shows "request_loop api_id env rc a st = (Inr j, wait_for_rate_limit (env (nat a)) st)"
  using assms
  by (subst request_loop.simps)
     (auto simp: Let_def wait_for_rate_limit_keeps get_auth_header_cached st_same_slot
        is_success_def)


lemma request_no_budget: "rc \<le> 0 \<Longrightarrow> request api_id env rc st = (Inr failure_payload, st)"
  by (simp add: request_def request_loop_done)

text \<open>
  With a budget of at least one attempt the \<open>return\<close> after the loop is never reached:
  what \<open>_request\<close> returns is the decoded body of a successful response.
\<close>

lemma request_loop_returns:
  assumes "fst (request_loop api_id env rc a st) = Inr j" and "a < rc"
  shows "\<exists>n r. api_reply (env n) = Reply r \<and> is_success (status_code r) \<and> json r = Some j"
  using assms
proof (induction api_id env rc a st rule: request_loop.induct)
  case (1 api_id env rc a st)
  show ?case
  proof (cases "a + 1 < rc")
    case True
    show ?thesis
      using "1.prems" "1.IH" True
      by (subst (asm) request_loop.simps)
         (auto simp: Let_def split: prod.splits sum.splits reply.splits if_splits option.splits)
  next
    case False
    then have "a = rc - 1" using "1.prems"(2) by simp
    then show ?thesis
      using "1.prems"
      by (subst (asm) request_loop.simps)
         (auto simp: Let_def split: prod.splits sum.splits reply.splits if_splits option.splits)
  qed
qed

subsection \<open>Runs of rate-limit responses\<close>

lemma run_429:
  assumes "token_slot st = Some tok"
    and "a \<le> k" and "int k < rc"
    and "\<forall>n. a \<le> n \<and> n < k \<longrightarrow>
           is_expired tok (now_dt (env n)) = Inr False
           \<and> (\<exists>r w. api_reply (env n) = Reply r \<and> status_code r = 429
                  \<and> wait_s (retry_after r) (int n) = Inr w \<and> 0 \<le> w)"
  shows "\<exists>st'. request_loop api_id env rc (int a) st = request_loop api_id env rc (int k) st'
           \<and> token_slot st' = Some tok
           \<and> length (backoff_delays (sleeps st')) = length (backoff_delays (sleeps st)) + (k - a)"
  using assms
proof (induction "k - a" arbitrary: a st)
  case 0
  then have "a = k" by simp
  then show ?case using "0.prems"(1) by auto
next
  case (Suc d)
  then have ak: "a < k" by simp
  with Suc.prems(4) obtain r w where
    ex: "is_expired tok (now_dt (env a)) = Inr False"
    and r: "api_reply (env a) = Reply r" "status_code r = 429"
      "wait_s (retry_after r) (int a) = Inr w" "0 \<le> w"
    by blast
  let ?st1 = "(wait_for_rate_limit (env a) st)
                \<lparr>sleeps := sleeps (wait_for_rate_limit (env a) st) @ [Backoff w]\<rparr>"
  have step: "request_loop api_id env rc (int a) st = request_loop api_id env rc (int a + 1) ?st1"
    using request_loop_429 [of "int a" rc st tok env r w api_id] Suc.prems(1,3) ak ex r
    by simp
  have slot1: "token_slot ?st1 = Some tok"
    using Suc.prems(1) by (simp add: wait_for_rate_limit_keeps)
  have len1: "length (backoff_delays (sleeps ?st1)) = length (backoff_delays (sleeps st)) + 1"
    by (simp add: backoff_delays_append wait_for_rate_limit_keeps)
  have "d = k - Suc a" using Suc.hyps(2) by simp
  from Suc.hyps(1) [OF this slot1 _ Suc.prems(3)] Suc.prems(4) ak
  obtain st' where
    "request_loop api_id env rc (int (Suc a)) ?st1 = request_loop api_id env rc (int k) st'"
    "token_slot st' = Some tok"
    "length (backoff_delays (sleeps st')) = length (backoff_delays (sleeps ?st1)) + (k - Suc a)"
    by auto
  then show ?case
    using step len1 ak by (intro exI [of _ st']) (simp add: add.commute)
qed


lemma c6_token_fresh: "is_expired (c6_token []) now = Inr False"
  by (simp add: is_expired_def c6_token_def)

lemmas request_eval = request_def request_loop.simps status_env_def c1_state_def
  wait_for_rate_limit_def MIN_REQUEST_INTERVAL_def get_auth_header_def token_def
  needs_refresh_def c6_token_fresh wait_s_def is_success_def Let_def

text \<open>
  Claim C1, as stated, fails: with a budget of three attempts the responses
  \<open>[429, 429, 429]\<close> make \<open>_request\<close> raise \<open>HTTPStatusError\<close> for the third response, after
  the backoff delays 2 and 4; the synthetic failure payload is not returned.
\<close>

theorem request_exhausted_counterexample:
  "request ''ka10080'' (status_env [429, 429, 429]) 3 c1_state =
     (Inl (HTTPStatusError 429),
      \<lparr> token_slot = Some (c6_token []), last_request_time = 121,
        sleeps = [Backoff 2, Backoff 4] \<rparr>)"
  by (simp add: request_eval)

text \<open>
  Claim C1, amended: when every attempt of a budget of at least one attempt is answered
  with 429 (with a usable backoff delay each time), \<open>_request\<close> raises \<open>HTTPStatusError\<close>
  for the last response, after one backoff delay for each earlier attempt, and does not
  return the synthetic failure payload; when the attempts before attempt \<open>k\<close> of the budget
  are answered with 429 and attempt \<open>k\<close> with a successful response, \<open>_request\<close> returns the
  decoded body of that response after \<open>k\<close> backoff delays. So \<open>[429, 429, 429]\<close> with three
  attempts raises after two delays, and \<open>[429, 429, 200]\<close> yields the decoded 200 response
  after two delays.
\<close>

theorem request_rate_limited:
  assumes "1 \<le> rc" and "token_slot st = Some tok"
    and "\<forall>n. n < nat rc \<longrightarrow>
           is_expired tok (now_dt (env n)) = Inr False
           \<and> (\<exists>r w. api_reply (env n) = Reply r \<and> status_code r = 429
                  \<and> wait_s (retry_after r) (int n) = Inr w \<and> 0 \<le> w)"
    and "int k < rc'" and "token_slot st' = Some tok'"
    and "\<forall>n. n \<le> k \<longrightarrow> is_expired tok' (now_dt (env' n)) = Inr False"
    and "\<forall>n. n < k \<longrightarrow>
           (\<exists>r w. api_reply (env' n) = Reply r \<and> status_code r = 429
                  \<and> wait_s (retry_after r) (int n) = Inr w \<and> 0 \<le> w)"
    and "api_reply (env' k) = Reply r'" and "is_success (status_code r')"
    and "json r' = Some j"
  shows "fst (request api_id env rc st) = Inl (HTTPStatusError 429)
       \<and> length (backoff_delays (sleeps (snd (request api_id env rc st))))
           = length (backoff_delays (sleeps st)) + (nat rc - 1)
       \<and> fst (request api_id env' rc' st') = Inr j
       \<and> length (backoff_delays (sleeps (snd (request api_id env' rc' st'))))
           = length (backoff_delays (sleeps st')) + k"
proof -
  \<comment> \<open>the budget exhausted by 429\<close>
  define l where "l = nat rc - 1"
  have l: "rc - 1 = int l" "int l < rc" "l < nat rc" "(0::nat) \<le> l"
    using assms(1) by (simp_all add: l_def)
  have h1: "\<forall>n. 0 \<le> n \<and> n < l \<longrightarrow>
           is_expired tok (now_dt (env n)) = Inr False
           \<and> (\<exists>r w. api_reply (env n) = Reply r \<and> status_code r = 429
                  \<and> wait_s (retry_after r) (int n) = Inr w \<and> 0 \<le> w)"
    using assms(3) l(3) by (meson less_trans)
  have "\<exists>s1. request_loop api_id env rc (int 0) st = request_loop api_id env rc (int l) s1
           \<and> token_slot s1 = Some tok
           \<and> length (backoff_delays (sleeps s1)) = length (backoff_delays (sleeps st)) + (l - 0)"
    by (rule run_429 [OF assms(2) l(4) l(2) h1])
  then obtain s1 where s1: "request_loop api_id env rc 0 st = request_loop api_id env rc (int l) s1"
    "token_slot s1 = Some tok"
    "length (backoff_delays (sleeps s1)) = length (backoff_delays (sleeps st)) + l"
    by auto
  from assms(3) l(3) obtain r where r: "is_expired tok (now_dt (env l)) = Inr False"
    "api_reply (env l) = Reply r" "status_code r = 429"
    by blast
  have ns: "\<not> is_success (status_code r)"
    by (simp add: r(3) is_success_def)
  have e1: "is_expired tok (now_dt (env (nat (int l)))) = Inr False"
    and a1: "api_reply (env (nat (int l))) = Reply r"
    using r(1,2) by simp_all
  have "request_loop api_id env rc (int l) s1 =
          (if int l = rc - 1
           then (Inl (HTTPStatusError (status_code r)), wait_for_rate_limit (env (nat (int l))) s1)
           else request_loop api_id env rc (int l + 1) (wait_for_rate_limit (env (nat (int l))) s1))"
    by (rule request_loop_error [of "int l" rc s1 tok env r api_id, OF _ l(2) s1(2) e1 a1 ns])
       (simp_all add: l(1))
  then have last: "request_loop api_id env rc (int l) s1 =
                (Inl (HTTPStatusError 429), wait_for_rate_limit (env l) s1)"
    by (simp add: l(1) r(3))
  have p1: "fst (request api_id env rc st) = Inl (HTTPStatusError 429)"
    "length (backoff_delays (sleeps (snd (request api_id env rc st))))
           = length (backoff_delays (sleeps st)) + l"
    by (simp_all add: request_def s1 last wait_for_rate_limit_keeps)
  \<comment> \<open>429 until a successful response\<close>
  have h2: "\<forall>n. 0 \<le> n \<and> n < k \<longrightarrow>
           is_expired tok' (now_dt (env' n)) = Inr False
           \<and> (\<exists>r w. api_reply (env' n) = Reply r \<and> status_code r = 429
                  \<and> wait_s (retry_after r) (int n) = Inr w \<and> 0 \<le> w)"
    using assms(6,7) by (meson less_imp_le)
  have k0: "(0::nat) \<le> k" by simp
  have "\<exists>s2. request_loop api_id env' rc' (int 0) st' = request_loop api_id env' rc' (int k) s2
           \<and> token_slot s2 = Some tok'
           \<and> length (backoff_delays (sleeps s2)) = length (backoff_delays (sleeps st')) + (k - 0)"
    by (rule run_429 [OF assms(5) k0 assms(4) h2])
  then obtain s2 where s2: "request_loop api_id env' rc' 0 st' = request_loop api_id env' rc' (int k) s2"
    "token_slot s2 = Some tok'"
    "length (backoff_delays (sleeps s2)) = length (backoff_delays (sleeps st')) + k"
    by auto
  have e2: "is_expired tok' (now_dt (env' (nat (int k)))) = Inr False"
    and a2: "api_reply (env' (nat (int k))) = Reply r'"
    using assms(6,8) by simp_all
  have "request_loop api_id env' rc' (int k) s2 =
          (Inr j, wait_for_rate_limit (env' (nat (int k))) s2)"
    by (rule request_loop_success [of "int k" rc' s2 tok' env' r' j api_id,
                OF _ assms(4) s2(2) e2 a2 assms(9,10)]) simp
  then have ok: "request_loop api_id env' rc' (int k) s2 = (Inr j, wait_for_rate_limit (env' k) s2)"
    by simp
  have p2: "fst (request api_id env' rc' st') = Inr j"
    "length (backoff_delays (sleeps (snd (request api_id env' rc' st'))))
           = length (backoff_delays (sleeps st')) + k"
    by (simp_all add: request_def s2 ok wait_for_rate_limit_keeps)
  show ?thesis using p1 p2 unfolding l_def by blast
qed

theorem request_rate_limited_witness:
  "fst (request ''ka10080'' (status_env [429, 429, 429]) 3 c1_state) = Inl (HTTPStatusError 429)
   \<and> length (backoff_delays (sleeps (snd (request ''ka10080'' (status_env [429, 429, 429]) 3 c1_state))))
       = length (backoff_delays (sleeps c1_state)) + (nat 3 - 1)
   \<and> fst (request ''ka10080'' (status_env [429, 429, 200]) 3 c1_state) = Inr (status_body 200)
   \<and> length (backoff_delays (sleeps (snd (request ''ka10080'' (status_env [429, 429, 200]) 3 c1_state))))
       = length (backoff_delays (sleeps c1_state)) + 2"
proof -
  have slot: "token_slot c1_state = Some (c6_token [])"
    by (simp add: c1_state_def)
  have h429: "\<forall>n. n < nat 3 \<longrightarrow>
           is_expired (c6_token []) (now_dt (status_env [429, 429, 429] n)) = Inr False
           \<and> (\<exists>r w. api_reply (status_env [429, 429, 429] n) = Reply r \<and> status_code r = 429
                  \<and> wait_s (retry_after r) (int n) = Inr w \<and> 0 \<le> w)"
    by (auto simp: status_env_def c6_token_fresh wait_s_def less_Suc_eq numeral_3_eq_3)
  have e200: "\<forall>n. n \<le> 2 \<longrightarrow>
           is_expired (c6_token []) (now_dt (status_env [429, 429, 200] n)) = Inr False"
    by (simp add: c6_token_fresh)
  have h200: "\<forall>n. n < 2 \<longrightarrow>
           (\<exists>r w. api_reply (status_env [429, 429, 200] n) = Reply r \<and> status_code r = 429
                  \<and> wait_s (retry_after r) (int n) = Inr w \<and> 0 \<le> w)"
    by (auto simp: status_env_def wait_s_def less_Suc_eq numeral_2_eq_2)
  have r200: "api_reply (status_env [429, 429, 200] 2) =
                Reply \<lparr> status_code = 200, retry_after = None, json = Some (status_body 200) \<rparr>"
    by (simp add: status_env_def)
  show ?thesis
    by (rule request_rate_limited [OF _ slot h429 _ slot e200 h200 r200])
       (simp_all add: is_success_def)
qed

text \<open>The two runs of the claim, evaluated.\<close>

lemma request_429_429_200:
  "request ''ka10080'' (status_env [429, 429, 200]) 3 c1_state =
     (Inr (status_body 200),
      \<lparr> token_slot = Some (c6_token []), last_request_time = 121,
        sleeps = [Backoff 2, Backoff 4] \<rparr>)"
  by (simp add: request_eval)

subsection \<open>HTTP errors other than 429\<close>

text \<open>
  Claim C3, as stated, fails: with a budget of three attempts the responses \<open>[500, 200]\<close>
  do not raise; the error 500 of the first attempt is caught, the request is sent again
  and the decoded 200 response is returned.
\<close>

theorem request_http_error_counterexample:
  "request ''ka10080'' (status_env [500, 200]) 3 c1_state =
     (Inr (status_body 200),
      \<lparr> token_slot = Some (c6_token []), last_request_time = 111, sleeps = [] \<rparr>)"
  by (simp add: request_eval)

text \<open>
  Claim C3, amended: an HTTP error status other than 429 makes \<open>_request\<close> raise
  \<open>HTTPStatusError\<close> only on the last attempt of the budget; on an earlier attempt the
  error is caught and the loop goes on with the next attempt, after the pacing wait and
  with no backoff delay.
\<close>

theorem request_http_error:
  assumes "0 \<le> a" and "a < rc" and "token_slot st = Some tok"
    and "is_expired tok (now_dt (env (nat a))) = Inr False"
    and "api_reply (env (nat a)) = Reply r"
    and "\<not> is_success (status_code r)" and "status_code r \<noteq> 429"
  shows "request_loop api_id env rc a st =
           (if a = rc - 1
            then (Inl (HTTPStatusError (status_code r)), wait_for_rate_limit (env (nat a)) st)
            else request_loop api_id env rc (a + 1) (wait_for_rate_limit (env (nat a)) st))"
  using assms by (intro request_loop_error) simp_all

theorem request_http_error_witness:
  "request_loop ''ka10080'' (status_env [500, 200]) 3 0 c1_state =
     request_loop ''ka10080'' (status_env [500, 200]) 3 1
       (wait_for_rate_limit (status_env [500, 200] 0) c1_state)
   \<and> request_loop ''ka10080'' (status_env [500]) 1 0 c1_state =
       (Inl (HTTPStatusError 500), wait_for_rate_limit (status_env [500] 0) c1_state)"
proof -
  have slot: "token_slot c1_state = Some (c6_token [])"
    by (simp add: c1_state_def)
  have r: "api_reply (status_env [500, 200] (nat 0)) =
             Reply \<lparr> status_code = 500, retry_after = None, json = Some (status_body 500) \<rparr>"
    "api_reply (status_env [500] (nat 0)) =
             Reply \<lparr> status_code = 500, retry_after = None, json = Some (status_body 500) \<rparr>"
    by (simp_all add: status_env_def)
  show ?thesis
    using request_http_error [of 0 3 c1_state "c6_token []" "status_env [500, 200]" _ "''ka10080''",
             OF _ _ slot c6_token_fresh r(1)]
          request_http_error [of 0 1 c1_state "c6_token []" "status_env [500]" _ "''ka10080''",
             OF _ _ slot c6_token_fresh r(2)]
    by (simp add: is_success_def)
qed

end
